theory Spec2Isabelle
  imports Complex_Main "HOL-Library.Word"
begin

section \<open>img2block: quadrant best-fit rendering\<close>

text \<open>
  A shallow embedding of \<^verbatim>\<open>src/img2block.py\<close>.

  Numbers. The program computes with IEEE numbers (Python doubles and numpy
  \<^verbatim>\<open>float32\<close> arrays). The embedding computes with exact reals and adds the two
  special values the program itself can produce: \<open>NaN\<close> (numpy's mean of an empty
  slice) and \<open>Inf\<close> (the initial \<^verbatim>\<open>float('inf')\<close> of the matcher). Rounding
  of the floating-point operations is not modelled; negative infinity does not occur,
  as the program never produces it from finite pixel data.

  Text. A Python \<^verbatim>\<open>str\<close> is a sequence of Unicode code points, and the glyphs of
  the palette lie outside ASCII, so a glyph is its code point and a string is a list of
  code points.
\<close>

subsection \<open>Numbers and errors\<close>

datatype npfloat = Num real | Inf | NaN

text \<open>
  The exceptions. \<open>ZeroDivisionError\<close> is raised by Python's \<^verbatim>\<open>/\<close>;
  \<open>ResizeError\<close> stands for whatever \<^verbatim>\<open>img.resize\<close> raises (Pillow: a
  \<^verbatim>\<open>ValueError\<close> for a target size below one pixel). \<open>InvalidParameterError\<close> is
  the name the specification uses; no statement of the program raises it.
\<close>

datatype error = ZeroDivisionError | ResizeError | InvalidParameterError

type_synonym glyph = nat
type_synonym pattern = "(real \<times> real) \<times> (real \<times> real)"
type_synonym quad = "(npfloat \<times> npfloat) \<times> (npfloat \<times> npfloat)"
type_synonym field = "real list list"
type_synonym la_array = "(8 word \<times> 8 word) list list"

text \<open>\<^verbatim>\<open>int(r)\<close> for a float \<open>r\<close>: truncation toward zero.\<close>

definition py_int :: "real \<Rightarrow> int" where
  "py_int r = (if 0 \<le> r then \<lfloor>r\<rfloor> else \<lceil>r\<rceil>)"

text \<open>\<^verbatim>\<open>np.clip(a, lo, hi)\<close> is \<^verbatim>\<open>minimum(maximum(a, lo), hi)\<close>.\<close>

definition np_clip :: "real \<Rightarrow> real \<Rightarrow> real \<Rightarrow> real" where
  "np_clip a lo hi = min (max a lo) hi"

text \<open>The arithmetic of the matcher on values that may be \<open>Inf\<close> or \<open>NaN\<close>.\<close>

fun np_sub :: "npfloat \<Rightarrow> real \<Rightarrow> npfloat" where
  "np_sub (Num a) p = Num (a - p)"
| "np_sub Inf p = Inf"
| "np_sub NaN p = NaN"

fun np_square :: "npfloat \<Rightarrow> npfloat" where
  "np_square (Num a) = Num (a ^ 2)"
| "np_square Inf = Inf"
| "np_square NaN = NaN"

fun np_add :: "npfloat \<Rightarrow> npfloat \<Rightarrow> npfloat" where
  "np_add (Num a) (Num b) = Num (a + b)"
| "np_add (Num a) Inf = Inf"
| "np_add (Num a) NaN = NaN"
| "np_add Inf (Num b) = Inf"
| "np_add Inf Inf = Inf"
| "np_add Inf NaN = NaN"
| "np_add NaN b = NaN"

text \<open>\<^verbatim>\<open>a < b\<close>: every comparison with \<open>NaN\<close> is false.\<close>

fun np_less :: "npfloat \<Rightarrow> npfloat \<Rightarrow> bool" where
  "np_less (Num a) (Num b) = (a < b)"
| "np_less (Num a) Inf = True"
| "np_less a b = False"

subsection \<open>The palette\<close>

text \<open>
  Patterns are \<^verbatim>\<open>[[tl, tr], [bl, br]]\<close>. The glyphs, by code point:
  space U+0020, the quadrant and half blocks U+2580 .. U+259F, the shades U+2591 .. U+2593.
\<close>

definition QUADRANT_PATTERNS :: "(glyph \<times> pattern) list" where
  "QUADRANT_PATTERNS =
    [(0x20,   ((0, 0), (0, 0))),
     (0x2597, ((0, 0), (0, 1))),
     (0x2596, ((0, 0), (1, 0))),
     (0x2584, ((0, 0), (1, 1))),
     (0x259D, ((0, 1), (0, 0))),
     (0x2590, ((0, 1), (0, 1))),
     (0x259E, ((0, 1), (1, 0))),
     (0x259F, ((0, 1), (1, 1))),
     (0x2598, ((1, 0), (0, 0))),
     (0x259A, ((1, 0), (0, 1))),
     (0x258C, ((1, 0), (1, 0))),
     (0x2599, ((1, 0), (1, 1))),
     (0x2580, ((1, 1), (0, 0))),
     (0x259C, ((1, 1), (0, 1))),
     (0x259B, ((1, 1), (1, 0))),
     (0x2588, ((1, 1), (1, 1)))]"

definition SHADE_PATTERNS :: "(glyph \<times> pattern) list" where
  "SHADE_PATTERNS =
    [(0x2591, ((1/4, 1/4), (1/4, 1/4))),
     (0x2592, ((1/2, 1/2), (1/2, 1/2))),
     (0x2593, ((3/4, 3/4), (3/4, 3/4)))]"

definition ALL_PATTERNS :: "(glyph \<times> pattern) list" where
  "ALL_PATTERNS = QUADRANT_PATTERNS @ SHADE_PATTERNS"

text \<open>
  \<^verbatim>\<open>PATTERNS\<close> converts every pattern to a \<^verbatim>\<open>float32\<close> array; all pattern
  values are exact in that format.
\<close>

definition PATTERNS :: "(glyph \<times> pattern) list" where
  "PATTERNS = map (\<lambda>(char, pattern). (char, pattern)) ALL_PATTERNS"

subsection \<open>Contrast\<close>

text \<open>
  \<^verbatim>\<open>boost_contrast\<close> works elementwise on an array; this is the function of one
  element, and the pipeline maps it over the brightness field.
\<close>

definition boost_contrast :: "real \<Rightarrow> real \<Rightarrow> real" where
  "boost_contrast brightness strength = np_clip ((brightness - 1/2) * strength + 1/2) 0 1"

subsection \<open>The matcher\<close>

text \<open>\<^verbatim>\<open>np.sum((quad - pattern) ** 2)\<close>\<close>

fun np_dist :: "quad \<Rightarrow> pattern \<Rightarrow> npfloat" where
  "np_dist ((tl', tr'), (bl', br')) ((p1, p2), (p3, p4)) =
     np_add (np_add (np_add (np_square (np_sub tl' p1)) (np_square (np_sub tr' p2)))
                    (np_square (np_sub bl' p3)))
            (np_square (np_sub br' p4))"

text \<open>The loop over the palette; the state is \<open>(min_dist, best_char)\<close>.\<close>

fun best_fit_loop :: "(glyph \<times> pattern) list \<Rightarrow> quad \<Rightarrow> npfloat \<times> glyph \<Rightarrow> npfloat \<times> glyph" where
  "best_fit_loop [] quad st = st"
| "best_fit_loop ((char, pattern) # ps) quad (min_dist, best_char) =
     (let dist = np_dist quad pattern
      in if np_less dist min_dist
         then best_fit_loop ps quad (dist, char)
         else best_fit_loop ps quad (min_dist, best_char))"

definition best_fit_quadrant :: "quad \<Rightarrow> glyph" where
  "best_fit_quadrant quad = snd (best_fit_loop PATTERNS quad (Inf, 0x20))"

subsection \<open>The cell sampler\<close>

text \<open>
  Python's slice \<^verbatim>\<open>xs[a:b]\<close> with integer bounds: a negative bound counts from the
  end, every bound is clipped to the sequence, and an empty range gives an empty slice.
\<close>

definition slice_bound :: "int \<Rightarrow> int \<Rightarrow> int" where
  "slice_bound i n = (if i < 0 then max (i + n) 0 else min i n)"

definition py_slice :: "int \<Rightarrow> int \<Rightarrow> 'a list \<Rightarrow> 'a list" where
  "py_slice a b xs =
     (let n = int (length xs); a' = slice_bound a n; b' = slice_bound b n
      in take (nat (b' - a')) (drop (nat a') xs))"

text \<open>\<^verbatim>\<open>img_array[y0:y1, x0:x1]\<close>\<close>

definition slice2 :: "field \<Rightarrow> int \<Rightarrow> int \<Rightarrow> int \<Rightarrow> int \<Rightarrow> field" where
  "slice2 img_array y0 y1 x0 x1 = map (py_slice x0 x1) (py_slice y0 y1 img_array)"

text \<open>
  \<^verbatim>\<open>.mean()\<close>: the sum of all elements over their number; on an array without
  elements numpy warns and returns \<^verbatim>\<open>nan\<close>.
\<close>

definition np_mean :: "field \<Rightarrow> npfloat" where
  "np_mean a = (let els = concat a
                in if els = [] then NaN else Num (sum_list els / real (length els)))"

text \<open>The parameter \<^verbatim>\<open>threshold\<close> of the source is never read and is left out.\<close>

definition sample_cell :: "field \<Rightarrow> int \<Rightarrow> int \<Rightarrow> real \<Rightarrow> real \<Rightarrow> quad" where
  "sample_cell img_array x y cell_w cell_h =
     (let x_start = py_int (of_int x * cell_w);
          x_mid = py_int ((of_int x + 1/2) * cell_w);
          x_end = py_int ((of_int x + 1) * cell_w);
          y_start = py_int (of_int y * cell_h);
          y_mid = py_int ((of_int y + 1/2) * cell_h);
          y_end = py_int ((of_int y + 1) * cell_h);
          tl' = np_mean (slice2 img_array y_start y_mid x_start x_mid);
          tr' = np_mean (slice2 img_array y_start y_mid x_mid x_end);
          bl' = np_mean (slice2 img_array y_mid y_end x_start x_mid);
          br' = np_mean (slice2 img_array y_mid y_end x_mid x_end)
      in ((tl', tr'), (bl', br')))"

subsection \<open>The pipeline\<close>

text \<open>
  The image as the program sees it after \<^verbatim>\<open>Image.open\<close> and the conversion to mode
  \<^verbatim>\<open>LA\<close>: its size, and the resampler \<^verbatim>\<open>img.resize((w, h), LANCZOS)\<close> followed
  by \<^verbatim>\<open>np.array\<close>, which gives rows of (gray, alpha) bytes or raises (\<open>None\<close>).
  Decoding and resampling belong to the imaging library, not to the program.
\<close>

record image =
  width :: nat
  height :: nat
  resize :: "int \<times> int \<Rightarrow> la_array option"

definition gray_of :: "la_array \<Rightarrow> field" where
  "gray_of la = map (map (\<lambda>(g, a). real (unat g) / 255)) la"

definition alpha_of :: "la_array \<Rightarrow> field" where
  "alpha_of la = map (map (\<lambda>(g, a). real (unat a) / 255)) la"

text \<open>
  Lines 113 to 115: \<^verbatim>\<open>if brightness != 0.0: gray_arr = np.clip(gray_arr + brightness, 0.0, 1.0)\<close>,
  for one element.
\<close>

definition brightness_shift :: "real \<Rightarrow> real \<Rightarrow> real" where
  "brightness_shift brightness g = (if brightness \<noteq> 0 then np_clip (g + brightness) 0 1 else g)"

text \<open>Line 118: \<^verbatim>\<open>brightness_arr = gray_arr * alpha_arr\<close>, elementwise.\<close>

definition mul_arr :: "field \<Rightarrow> field \<Rightarrow> field" where
  "mul_arr gray_arr alpha_arr = map2 (\<lambda>gs as. map2 (*) gs as) gray_arr alpha_arr"

text \<open>
  Lines 109 to 118: the channels of the resized bytes, the shift of the gray channel,
  then the product with alpha.
\<close>

definition composite :: "la_array \<Rightarrow> real \<Rightarrow> field" where
  "composite la brightness =
     (let gray_arr = gray_of la;
          alpha_arr = alpha_of la;
          gray_arr = map (map (brightness_shift brightness)) gray_arr
      in mul_arr gray_arr alpha_arr)"

text \<open>Line 121: \<^verbatim>\<open>brightness_arr = boost_contrast(brightness_arr, contrast)\<close>\<close>

definition brightness_field :: "la_array \<Rightarrow> real \<Rightarrow> real \<Rightarrow> field" where
  "brightness_field la contrast brightness =
     map (map (\<lambda>v. boost_contrast v contrast)) (composite la brightness)"

text \<open>\<^verbatim>\<open>sep.join(rows)\<close>\<close>

fun py_join :: "glyph list \<Rightarrow> glyph list list \<Rightarrow> glyph list" where
  "py_join sep [] = []"
| "py_join sep [r] = r"
| "py_join sep (r # rs) = r @ sep @ py_join sep rs"

text \<open>\<^verbatim>\<open>range(n)\<close> for an integer \<open>n\<close>: empty when \<open>n \<le> 0\<close>.\<close>

definition py_range :: "int \<Rightarrow> int list" where
  "py_range n = [0..n - 1]"

text \<open>Lines 127 to 134: the list \<^verbatim>\<open>result\<close> of rows.\<close>

definition render_rows :: "field \<Rightarrow> int \<Rightarrow> int \<Rightarrow> real \<Rightarrow> real \<Rightarrow> glyph list list" where
  "render_rows brightness_arr lines cols cell_w cell_h =
     map (\<lambda>y. map (\<lambda>x. best_fit_quadrant (sample_cell brightness_arr x y cell_w cell_h))
                  (py_range cols))
         (py_range lines)"

text \<open>\<^verbatim>\<open>cols = int(lines * aspect * 2)\<close> with \<^verbatim>\<open>aspect = img.width / img.height\<close>\<close>

definition columns :: "image \<Rightarrow> int \<Rightarrow> int" where
  "columns img lines = py_int (of_int lines * (real (width img) / real (height img)) * 2)"

definition image_to_blocks :: "image \<Rightarrow> int \<Rightarrow> real \<Rightarrow> real \<Rightarrow> error + glyph list" where
  "image_to_blocks img lines contrast brightness =
     (if height img = 0 then Inl ZeroDivisionError
      else
        let cols = columns img lines;
            target_w = cols * 2;
            target_h = lines * 2
        in case resize img (target_w, target_h) of
             None \<Rightarrow> Inl ResizeError
           | Some la \<Rightarrow>
               let brightness_arr = brightness_field la contrast brightness
               in if lines = 0 then Inl ZeroDivisionError
                  else if cols = 0 then Inl ZeroDivisionError
                  else
                    let cell_h = of_int target_h / of_int lines;
                        cell_w = of_int target_w / of_int cols
                    in Inr (py_join [10] (render_rows brightness_arr lines cols cell_w cell_h)))"

section \<open>The specification's words\<close>






subsection \<open>Images to run the program on\<close>

text \<open>
  An image of one colour \<open>px\<close> = (gray, alpha). Resampling it gives that colour at
  every pixel of the target; a target below one pixel in either direction is refused,
  as Pillow refuses it.
\<close>

definition solid_image :: "nat \<Rightarrow> nat \<Rightarrow> 8 word \<times> 8 word \<Rightarrow> image" where
  "solid_image w h px =
     \<lparr>width = w, height = h,
      resize = (\<lambda>(tw, th). if tw < 1 \<or> th < 1 then None
                            else Some (replicate (nat th) (replicate (nat tw) px)))\<rparr>"

section \<open>Properties\<close>

lemmas palette_defs = PATTERNS_def ALL_PATTERNS_def QUADRANT_PATTERNS_def SHADE_PATTERNS_def


subsection \<open>The palette\<close>

text \<open>
  C8. The palette is the sixteen binary quadrant patterns, each once and in counting
  order (top-left the most significant), followed by the three uniform patterns at
  1/4, 1/2 and 3/4; the glyphs are pairwise distinct and every pattern value lies in
  the unit interval.
\<close>

theorem palette_contents:
  "length ALL_PATTERNS = 19
   \<and> map snd (take 16 ALL_PATTERNS) =
       [((a, b), (c, d)). a \<leftarrow> [0, 1], b \<leftarrow> [0, 1], c \<leftarrow> [0, 1], d \<leftarrow> [0, 1]]
   \<and> distinct (map snd (take 16 ALL_PATTERNS))
   \<and> map snd (drop 16 ALL_PATTERNS) = [((v, v), (v, v)). v \<leftarrow> [1/4, 1/2, 3/4]]
   \<and> distinct (map fst ALL_PATTERNS)
   \<and> list_all (\<lambda>(g, ((a, b), (c, d))).
         0 \<le> a \<and> a \<le> 1 \<and> 0 \<le> b \<and> b \<le> 1 \<and> 0 \<le> c \<and> c \<le> 1 \<and> 0 \<le> d \<and> d \<le> 1) ALL_PATTERNS
   \<and> PATTERNS = ALL_PATTERNS"
  by (simp add: palette_defs)


lemma space_in_palette: "(0x20::nat) \<in> set (map fst PATTERNS)"
  by (simp add: palette_defs)


subsection \<open>Contrast\<close>



subsection \<open>Brightness shift and compositing\<close>

lemma zip_map_same: "zip (map f xs) (map g xs) = map (\<lambda>x. (f x, g x)) xs"
  by (induction xs) simp_all

lemma composite_pixelwise:
  "composite la brightness =
     map (map (\<lambda>(g, a). brightness_shift brightness (real (unat g) / 255) * (real (unat a) / 255))) la"
  unfolding composite_def Let_def mul_arr_def gray_of_def alpha_of_def
  by (simp add: zip_map_same comp_def case_prod_unfold)





subsection \<open>The matcher\<close>

lemma best_fit_loop_in:
  "snd (best_fit_loop ps q (m, c)) \<in> set (c # map fst ps)"
proof (induction ps arbitrary: m c)
  case Nil
  show ?case by simp
next
  case (Cons p ps)
  obtain ch pat where p: "p = (ch, pat)" by (cases p)
  show ?case
  proof (cases "np_less (np_dist q pat) m")
    case True
    with Cons.IH[of "np_dist q pat" ch] show ?thesis by (auto simp: p)
  next
    case False
    with Cons.IH[of m c] show ?thesis by (auto simp: p)
  qed
qed

lemma best_fit_quadrant_glyph: "best_fit_quadrant q \<in> set (map fst PATTERNS)"
proof -
  let ?r = "snd (best_fit_loop PATTERNS q (Inf, 0x20))"
  have "?r \<in> set (0x20 # map fst PATTERNS)" by (rule best_fit_loop_in)
  then have "?r = 0x20 \<or> ?r \<in> set (map fst PATTERNS)"
    by (simp only: list.set insert_iff)
  with space_in_palette show ?thesis
    unfolding best_fit_quadrant_def by (elim disjE) (simp_all only:)
qed

text \<open>
  C10. The matcher is a total function, so it returns for every sample and raises
  nothing; on every sample, also one with values outside the unit interval, with
  \<open>NaN\<close> or with \<open>Inf\<close>, the glyph it returns is a glyph of the palette: it is
  the initial candidate, the space, or the glyph of an entry the loop visited.
\<close>

theorem best_fit_quadrant_in_palette:
  "best_fit_quadrant q \<in> set (map fst PATTERNS)"
  by (rule best_fit_quadrant_glyph)





lemma np_add_NaN: "np_add a NaN = NaN"
  by (cases a) simp_all

lemma np_dist_NaN:
  assumes "a = NaN \<or> b = NaN \<or> c = NaN \<or> d = NaN"
  shows "np_dist ((a, b), (c, d)) p = NaN"
proof -
  obtain p1 p2 p3 p4 where p: "p = ((p1, p2), (p3, p4))" by (cases p) auto
  from assms show ?thesis unfolding p by (auto simp: np_add_NaN)
qed

lemma best_fit_loop_keep:
  assumes "\<forall>p\<in>set ps. \<not> np_less (np_dist q (snd p)) m"
  shows "best_fit_loop ps q (m, c) = (m, c)"
  using assms by (induction ps) auto

lemma best_fit_quadrant_NaN:
  assumes "a = NaN \<or> b = NaN \<or> c = NaN \<or> d = NaN"
  shows "best_fit_quadrant ((a, b), (c, d)) = 0x20"
  unfolding best_fit_quadrant_def
  by (subst best_fit_loop_keep) (simp_all add: np_dist_NaN[OF assms])

lemma best_fit_quadrant_zero:
  "best_fit_quadrant ((Num 0, Num 0), (Num 0, Num 0)) = 0x20"
proof -
  obtain ps where P: "PATTERNS = (0x20, ((0, 0), (0, 0))) # ps"
    by (simp add: palette_defs)
  have "best_fit_loop PATTERNS ((Num 0, Num 0), (Num 0, Num 0)) (Inf, 0x20)
      = best_fit_loop ps ((Num 0, Num 0), (Num 0, Num 0)) (Num 0, 0x20)"
    unfolding P by (simp add: Let_def)
  also have "\<dots> = (Num 0, 0x20)"
  proof (rule best_fit_loop_keep, rule ballI)
    fix p assume "p \<in> set ps"
    obtain p1 p2 p3 p4 where p: "snd p = ((p1, p2), (p3, p4))" by (cases "snd p") auto
    have "0 \<le> p1\<^sup>2 + p2\<^sup>2 + p3\<^sup>2 + p4\<^sup>2"
      by (intro add_nonneg_nonneg zero_le_power2)
    then show "\<not> np_less (np_dist ((Num 0, Num 0), (Num 0, Num 0)) (snd p)) (Num 0)"
      unfolding p by (simp add: not_less)
  qed
  finally show ?thesis by (simp add: best_fit_quadrant_def)
qed

subsection \<open>The cell sampler\<close>











lemma set_py_slice: "set (py_slice a b xs) \<subseteq> set xs"
  unfolding py_slice_def Let_def
  by (meson set_take_subset set_drop_subset subset_trans)

lemma sum_list_zeros: "\<forall>v\<in>set xs. v = (0::real) \<Longrightarrow> sum_list xs = 0"
  by (induction xs) simp_all

lemma np_mean_zero:
  assumes "\<forall>row\<in>set a. \<forall>v\<in>set row. v = 0"
  shows "np_mean a = NaN \<or> np_mean a = Num 0"
proof -
  have "\<forall>v\<in>set (concat a). v = 0" using assms by auto
  then have "sum_list (concat a) = 0" by (rule sum_list_zeros)
  then show ?thesis
    by (cases "concat a = []") (simp_all add: np_mean_def Let_def del: concat_eq_Nil_conv)
qed

lemma slice2_zero:
  assumes "\<forall>row\<in>set f. \<forall>v\<in>set row. v = 0"
  shows "\<forall>row\<in>set (slice2 f y0 y1 x0 x1). \<forall>v\<in>set row. v = 0"
proof (intro ballI)
  fix row v assume "row \<in> set (slice2 f y0 y1 x0 x1)" "v \<in> set row"
  then obtain r where "r \<in> set (py_slice y0 y1 f)" "row = py_slice x0 x1 r"
    by (auto simp: slice2_def)
  then have "r \<in> set f" "v \<in> set r"
    using \<open>v \<in> set row\<close> set_py_slice[of y0 y1 f] set_py_slice[of x0 x1 r] by auto
  with assms show "v = 0" by blast
qed

lemma sample_cell_zero:
  assumes "\<forall>row\<in>set f. \<forall>v\<in>set row. v = 0"
  shows "best_fit_quadrant (sample_cell f x y cw ch) = 0x20"
proof -
  obtain a b c d where s: "sample_cell f x y cw ch = ((a, b), (c, d))"
    by (metis surj_pair)
  have m: "\<And>y0 y1 x0 x1. np_mean (slice2 f y0 y1 x0 x1) = NaN \<or> np_mean (slice2 f y0 y1 x0 x1) = Num 0"
    using np_mean_zero[OF slice2_zero[OF assms]] by blast
  from s have "(a = NaN \<or> a = Num 0) \<and> (b = NaN \<or> b = Num 0) \<and> (c = NaN \<or> c = Num 0) \<and> (d = NaN \<or> d = Num 0)"
    unfolding sample_cell_def Let_def using m by (metis prod.inject)
  then consider "a = NaN \<or> b = NaN \<or> c = NaN \<or> d = NaN" | "a = Num 0 \<and> b = Num 0 \<and> c = Num 0 \<and> d = Num 0"
    by blast
  then show ?thesis
  proof cases
    case 1
    then show ?thesis unfolding s by (rule best_fit_quadrant_NaN)
  next
    case 2
    then show ?thesis unfolding s by (simp add: best_fit_quadrant_zero)
  qed
qed

subsection \<open>The pipeline\<close>

lemma length_py_range: "length (py_range n) = nat n"
  by (simp add: py_range_def)



lemma render_rows_zero:
  assumes "\<forall>row\<in>set f. \<forall>v\<in>set row. v = 0"
  shows "render_rows f lines cols cw ch = replicate (nat lines) (replicate (nat cols) 0x20)"
  unfolding render_rows_def
  by (simp add: sample_cell_zero[OF assms] map_replicate_const length_py_range)

lemma image_to_blocks_rows:
  assumes "height img \<noteq> 0" "lines \<noteq> 0" "columns img lines \<noteq> 0"
    and "resize img (columns img lines * 2, lines * 2) = Some la"
  shows "image_to_blocks img lines c b =
           Inr (py_join [10] (render_rows (brightness_field la c b) lines (columns img lines) 2 2))"
  using assms by (simp add: image_to_blocks_def Let_def)


text \<open>
  Solid images: every cell of the resized field is one colour, so every glyph of the
  grid is the glyph of that colour.
\<close>

lemma image_to_blocks_refused:
  assumes "height img \<noteq> 0" "resize img (columns img lines * 2, lines * 2) = None"
  shows "image_to_blocks img lines c b = Inl ResizeError"
  using assms by (simp add: image_to_blocks_def Let_def)

lemma solid_simps:
  "width (solid_image w h px) = w" "height (solid_image w h px) = h"
  "resize (solid_image w h px) (tw, th) =
     (if tw < 1 \<or> th < 1 then None else Some (replicate (nat th) (replicate (nat tw) px)))"
  by (simp_all add: solid_image_def)










lemma cols_7_8_3: "columns (solid_image 7 8 px) 3 = 5"
  by (simp add: columns_def solid_simps py_int_def)


lemma cols_0_2_5: "columns (solid_image 0 2 px) 5 = 0"
  by (simp add: columns_def solid_simps py_int_def)





text \<open>
  C2, as the program has it. The program checks nothing up front. With height 0 the
  aspect ratio's division raises \<open>ZeroDivisionError\<close>, before the resampler is
  called. With a line count of 0 or width 0 (and a height that is not 0) the resampler
  is called on a target with a zero side; if it refuses, its error is the result, and
  if it returns, the cell-size division raises \<open>ZeroDivisionError\<close>. A negative line
  count fails only through a resampler that refuses targets below one pixel. No input
  gives \<open>InvalidParameterError\<close>.
\<close>

theorem image_to_blocks_degenerate:
  "(height img = 0 \<longrightarrow> image_to_blocks img lines c b = Inl ZeroDivisionError)
   \<and> (height img \<noteq> 0 \<and> (lines = 0 \<or> width img = 0) \<longrightarrow>
        image_to_blocks img lines c b =
          (case resize img (columns img lines * 2, lines * 2) of
             None \<Rightarrow> Inl ResizeError | Some la \<Rightarrow> Inl ZeroDivisionError))
   \<and> (height img \<noteq> 0 \<and> lines < 0 \<and> (\<forall>w h. w < 1 \<or> h < 1 \<longrightarrow> resize img (w, h) = None) \<longrightarrow>
        image_to_blocks img lines c b = Inl ResizeError)
   \<and> image_to_blocks img lines c b \<noteq> Inl InvalidParameterError"
proof (intro conjI impI)
  assume "height img = 0"
  then show "image_to_blocks img lines c b = Inl ZeroDivisionError"
    by (simp add: image_to_blocks_def)
next
  assume h: "height img \<noteq> 0 \<and> (lines = 0 \<or> width img = 0)"
  then have "lines = 0 \<or> columns img lines = 0"
    by (auto simp: columns_def py_int_def)
  with h show "image_to_blocks img lines c b =
          (case resize img (columns img lines * 2, lines * 2) of
             None \<Rightarrow> Inl ResizeError | Some la \<Rightarrow> Inl ZeroDivisionError)"
    by (auto simp: image_to_blocks_def Let_def split: option.splits)
next
  assume h: "height img \<noteq> 0 \<and> lines < 0 \<and> (\<forall>w h. w < 1 \<or> h < 1 \<longrightarrow> resize img (w, h) = None)"
  then have "lines * 2 < 1" by simp
  with h have "resize img (columns img lines * 2, lines * 2) = None" by blast
  with h show "image_to_blocks img lines c b = Inl ResizeError"
    by (simp add: image_to_blocks_def Let_def)
next
  show "image_to_blocks img lines c b \<noteq> Inl InvalidParameterError"
    by (simp add: image_to_blocks_def Let_def split: option.splits)
qed

text \<open>
  An instance: height 0; width 0 with a resampler that refuses; 0 lines with a
  resampler that returns; a negative line count with a resampler that refuses.
\<close>

theorem image_to_blocks_degenerate_witness:
  "image_to_blocks (solid_image 2 0 (255, 255)) 5 1 0 = Inl ZeroDivisionError
   \<and> image_to_blocks (solid_image 0 2 (255, 255)) 5 1 0 = Inl ResizeError
   \<and> image_to_blocks \<lparr>width = 2, height = 2, resize = (\<lambda>size. Some [])\<rparr> 0 1 0 = Inl ZeroDivisionError
   \<and> image_to_blocks (solid_image 2 2 (255, 255)) (- 3) 1 0 = Inl ResizeError"
  using image_to_blocks_degenerate[of "solid_image 2 0 (255, 255)" 5 1 0]
    image_to_blocks_degenerate[of "solid_image 0 2 (255, 255)" 5 1 0]
    image_to_blocks_degenerate[of "\<lparr>width = 2, height = 2, resize = (\<lambda>size. Some [])\<rparr>" 0 1 0]
    image_to_blocks_degenerate[of "solid_image 2 2 (255, 255)" "- 3" 1 0]
  by (simp add: solid_simps cols_0_2_5)

text \<open>
  The error is not \<open>InvalidParameterError\<close>: with 0 lines on an image of 2 by 2
  pixels the failure is the resampler's, raised inside the resampling call, and with
  height 0 it is the \<open>ZeroDivisionError\<close> of the division.
\<close>

theorem image_to_blocks_zero_lines_counterexample:
  "image_to_blocks (solid_image 2 2 (255, 255)) 0 1 0 = Inl ResizeError
   \<and> image_to_blocks (solid_image 2 2 (255, 255)) 0 1 0 \<noteq> Inl InvalidParameterError
   \<and> image_to_blocks (solid_image 2 0 (255, 255)) 5 1 0 = Inl ZeroDivisionError
   \<and> image_to_blocks (solid_image 2 0 (255, 255)) 5 1 0 \<noteq> Inl InvalidParameterError"
proof -
  have a: "image_to_blocks (solid_image 2 2 (255, 255)) 0 1 0 = Inl ResizeError"
    by (rule image_to_blocks_refused) (simp_all add: solid_simps)
  have b: "image_to_blocks (solid_image 2 0 (255, 255)) 5 1 0 = Inl ZeroDivisionError"
    by (simp add: image_to_blocks_def solid_simps)
  show ?thesis unfolding a b by simp
qed

lemma brightness_field_transparent:
  assumes "\<forall>row\<in>set la. \<forall>p\<in>set row. snd p = 0"
  shows "\<forall>row\<in>set (brightness_field la 1 b). \<forall>v\<in>set row. v = 0"
proof (intro ballI)
  let ?px = "\<lambda>p. boost_contrast (brightness_shift b (real (unat (fst p)) / 255) * (real (unat (snd p)) / 255)) 1"
  have bf: "brightness_field la 1 b = map (map ?px) la"
    by (simp add: brightness_field_def composite_pixelwise case_prod_unfold comp_def)
  fix row v assume "row \<in> set (brightness_field la 1 b)" "v \<in> set row"
  then obtain r p where "r \<in> set la" "p \<in> set r" "v = ?px p"
    unfolding bf by auto
  with assms have "snd p = 0" by blast
  with \<open>v = ?px p\<close> show "v = 0"
    by (simp add: boost_contrast_def np_clip_def)
qed

text \<open>
  C5. When every pixel of the resized image has alpha 0, whatever its gray values,
  rendering at contrast 1 (and any brightness shift, 0 included) gives a grid of
  spaces only.
\<close>

theorem transparent_image_all_spaces:
  assumes "0 < lines" "0 < height img" "columns img lines \<noteq> 0"
    and "resize img (columns img lines * 2, lines * 2) = Some la"
    and "\<forall>row\<in>set la. \<forall>p\<in>set row. snd p = 0"
  shows "image_to_blocks img lines 1 brightness =
           Inr (py_join [10] (replicate (nat lines) (replicate (nat (columns img lines)) 0x20)))"
proof -
  have "image_to_blocks img lines 1 brightness =
      Inr (py_join [10] (render_rows (brightness_field la 1 brightness) lines (columns img lines) 2 2))"
    using assms(1-4) by (intro image_to_blocks_rows) simp_all
  then show ?thesis
    by (simp only: render_rows_zero[OF brightness_field_transparent[OF assms(5)]])
qed

text \<open>
  An instance: a transparent image of gray 200, 7 by 8 pixels, at 3 lines gives
  3 rows of 5 spaces.
\<close>

theorem transparent_image_all_spaces_witness:
  "(0::int) < 3 \<and> 0 < height (solid_image 7 8 (200, 0))
   \<and> columns (solid_image 7 8 (200, 0)) 3 = 5
   \<and> resize (solid_image 7 8 (200, 0)) (5 * 2, 3 * 2) = Some (replicate 6 (replicate 10 (200, 0)))
   \<and> image_to_blocks (solid_image 7 8 (200, 0)) 3 1 0 = Inr (py_join [10] (replicate 3 (replicate 5 0x20)))"
proof -
  let ?I = "solid_image 7 8 (200, 0)"
  have h: "(0::int) < 3" "0 < height ?I" "columns ?I 3 \<noteq> 0"
      "resize ?I (columns ?I 3 * 2, 3 * 2) = Some (replicate 6 (replicate 10 (200, 0)))"
      "\<forall>row\<in>set (replicate 6 (replicate 10 (200::8 word, 0::8 word))). \<forall>p\<in>set row. snd p = 0"
    by (simp_all add: cols_7_8_3 solid_simps)
  from transparent_image_all_spaces[OF h, of 0] h show ?thesis
    by (simp add: cols_7_8_3 solid_simps)
qed

end
